theory Spec2Isabelle
  imports Main "HOL-Library.Sublist" "HOL-Library.AList"
begin

section \<open>Python values and built-ins used by manage-archive.py\<close>

text \<open>
  The script is a thin layer over the Glacier client of the SDK, the console and one
  text file. Its strings are modelled as \<^typ>\<open>string\<close>; a \<^typ>\<open>char\<close> stands for the code
  point of the same number, so the model covers text whose code points are below 256.
\<close>

subsection \<open>Exceptions\<close>

text \<open>
  \<open>ClientError\<close> is the SDK's exception for a request the service rejected; it is the only
  one the script catches around a remote call. \<open>OtherException\<close> is any exception of the
  SDK that is not a \<open>ClientError\<close> (a connection failure, a missing region). The rest are
  the built-in exceptions the script's own expressions can raise, and \<open>MarkupError\<close>, which
  the console raises for a text that is not well-formed markup. \<open>Unmodelled\<close> is not a
  Python exception: it marks a value that Python computes and this model does not (the
  text of a float, a list or a dict, a decoded character above code point 255, and a
  response body that is not plain ASCII).
\<close>

datatype exn =
    ClientError string
  | OtherException string
  | KeyError string
  | TypeError
  | ValueError
  | JSONDecodeError
  | FileNotFoundError string
  | MarkupError
  | Unmodelled

type_synonym 'a result = "exn + 'a"

subsection \<open>Strings: \<open>str.index\<close>, slicing, \<open>str.strip\<close>, \<open>str.join\<close>\<close>

text \<open>
  \<open>s.index(sub)\<close> is the lowest index at which \<open>sub\<close> occurs in \<open>s\<close>; it raises
  \<open>ValueError\<close> when there is none, which is \<open>None\<close> here.
\<close>

fun str_index :: "string \<Rightarrow> string \<Rightarrow> nat option" where
  "str_index [] sub = (if sub = [] then Some 0 else None)"
| "str_index (c # cs) sub =
     (if prefix sub (c # cs) then Some 0 else map_option Suc (str_index cs sub))"

text \<open>
  \<open>str.isspace\<close> on one character, for the code points below 256: the ASCII controls
  9 to 13 and 28 to 31, the space, and the Latin-1 characters 0x85 and 0xA0.
\<close>

definition is_space :: "char \<Rightarrow> bool" where
  "is_space c =
     (let n = (of_char c :: nat)
      in (9 \<le> n \<and> n \<le> 13) \<or> (28 \<le> n \<and> n \<le> 32) \<or> n = 133 \<or> n = 160)"

text \<open>\<open>s.strip()\<close> removes the whitespace at both ends of \<open>s\<close>.\<close>

definition py_strip :: "string \<Rightarrow> string" where
  "py_strip s = rev (dropWhile is_space (rev (dropWhile is_space s)))"

text \<open>\<open>sep.join(xs)\<close>.\<close>

fun py_join :: "string \<Rightarrow> string list \<Rightarrow> string" where
  "py_join sep [] = []"
| "py_join sep [x] = x"
| "py_join sep (x # y # ys) = x @ sep @ py_join sep (y # ys)"

subsection \<open>Values\<close>

text \<open>
  The values the script reads out of the SDK's responses and out of decoded JSON. A dict
  is an association list in insertion order, read at the first binding of a key. A float
  is kept as the text of its literal: the script only ever formats values, and the text
  Python gives a float is not computed here.
\<close>

datatype pyval =
    PNone
  | PBool bool
  | PInt int
  | PFloat string
  | PStr string
  | PList "pyval list"
  | PDict "(string \<times> pyval) list"

type_synonym dict = "(string \<times> pyval) list"

definition bind_r :: "'a result \<Rightarrow> ('a \<Rightarrow> 'b result) \<Rightarrow> 'b result" where
  "bind_r r f = (case r of Inl e \<Rightarrow> Inl e | Inr x \<Rightarrow> f x)"

text \<open>\<open>d[k]\<close> on a dict, raising \<open>KeyError\<close>; \<open>d.get(k)\<close>, giving \<open>None\<close>.\<close>

definition dict_getitem :: "dict \<Rightarrow> string \<Rightarrow> pyval result" where
  "dict_getitem d k = (case map_of d k of None \<Rightarrow> Inl (KeyError k) | Some v \<Rightarrow> Inr v)"

definition dict_get :: "dict \<Rightarrow> string \<Rightarrow> pyval" where
  "dict_get d k = (case map_of d k of None \<Rightarrow> PNone | Some v \<Rightarrow> v)"

text \<open>
  \<open>v[k]\<close> with a string \<open>k\<close> on any value: only a dict can be subscripted by a string, every
  other value raises \<open>TypeError\<close>.
\<close>

fun py_getitem :: "pyval \<Rightarrow> string \<Rightarrow> pyval result" where
  "py_getitem (PDict d) k = dict_getitem d k"
| "py_getitem v k = Inl TypeError"

text \<open>
  \<open>for x in v\<close>: a list yields its elements, a dict its keys, a string its characters;
  the other values are not iterable.
\<close>

fun py_iter :: "pyval \<Rightarrow> pyval list result" where
  "py_iter (PList xs) = Inr xs"
| "py_iter (PDict d) = Inr (map (\<lambda>kv. PStr (fst kv)) d)"
| "py_iter (PStr s) = Inr (map (\<lambda>c. PStr [c]) s)"
| "py_iter v = Inl TypeError"

subsection \<open>Formatting\<close>

definition digit_char :: "nat \<Rightarrow> char" where
  "digit_char d = char_of (48 + d)"

fun dec_nat :: "nat \<Rightarrow> string" where
  "dec_nat n = (if n < 10 then [digit_char n] else dec_nat (n div 10) @ [digit_char (n mod 10)])"

declare dec_nat.simps [simp del]

text \<open>\<open>str(i)\<close> for an integer.\<close>

definition py_str_int :: "int \<Rightarrow> string" where
  "py_str_int i = (if i < 0 then CHR ''-'' # dec_nat (nat (- i)) else dec_nat (nat i))"

definition rjust :: "nat \<Rightarrow> string \<Rightarrow> string" where
  "rjust width s = replicate (width - length s) CHR '' '' @ s"

text \<open>
  A replacement field \<open>{v:Nd}\<close> of an f-string: an integer (a bool is one) is written in
  decimal, right-aligned in \<open>N\<close> columns; a string or a float raises \<open>ValueError\<close>
  (unknown format code), every other value \<open>TypeError\<close>.
\<close>

fun format_d :: "nat \<Rightarrow> pyval \<Rightarrow> string result" where
  "format_d width (PInt i) = Inr (rjust width (py_str_int i))"
| "format_d width (PBool b) = Inr (rjust width (py_str_int (if b then 1 else 0)))"
| "format_d width (PStr s) = Inl ValueError"
| "format_d width (PFloat s) = Inl ValueError"
| "format_d width v = Inl TypeError"

text \<open>A replacement field \<open>{v}\<close>: \<open>str(v)\<close>.\<close>

fun py_str :: "pyval \<Rightarrow> string result" where
  "py_str (PStr s) = Inr s"
| "py_str (PInt i) = Inr (py_str_int i)"
| "py_str (PBool b) = Inr (if b then ''True'' else ''False'')"
| "py_str PNone = Inr ''None''"
| "py_str v = Inl Unmodelled"

section \<open>Decoding JSON: \<open>json.loads\<close>\<close>

text \<open>
  The decoder of the standard library, for the grammar it accepts: the JSON values, and
  the literals \<open>NaN\<close>, \<open>Infinity\<close> and \<open>-Infinity\<close>. The text is first cut into tokens and the
  tokens are then read with a stack of the containers that are still open. Every
  malformed text raises \<open>JSONDecodeError\<close>. A number with no fraction and no exponent is
  an integer, of any length (an interpreter's limit on the digits of an integer literal
  is not modelled); any other number is a float and is kept as its literal. An object
  keeps its keys in the order they first appear, and the last value of a repeated key.
  A text with a four-hex-digit escape above code point 255 is outside the model:
  decoding it gives \<open>Unmodelled\<close>.
\<close>

datatype token = TLBrace | TRBrace | TLBrack | TRBrack | TColon | TComma | TStr string | TVal pyval

definition json_ws :: "char \<Rightarrow> bool" where
  "json_ws c = (c = CHR '' '' \<or> c = CHR 0x09 \<or> c = CHR 0x0A \<or> c = CHR 0x0D)"

definition is_digit :: "char \<Rightarrow> bool" where
  "is_digit c = (let n = (of_char c :: nat) in 48 \<le> n \<and> n \<le> 57)"

definition nat_of_digits :: "string \<Rightarrow> nat" where
  "nat_of_digits ds = foldl (\<lambda>n c. 10 * n + (of_char c - 48)) 0 ds"

definition hex_val :: "char \<Rightarrow> nat option" where
  "hex_val c =
     (let n = (of_char c :: nat)
      in if 48 \<le> n \<and> n \<le> 57 then Some (n - 48)
         else if 65 \<le> n \<and> n \<le> 70 then Some (n - 55)
         else if 97 \<le> n \<and> n \<le> 102 then Some (n - 87)
         else None)"

definition hex4 :: "char \<Rightarrow> char \<Rightarrow> char \<Rightarrow> char \<Rightarrow> nat option" where
  "hex4 a b c d =
     (case (hex_val a, hex_val b, hex_val c, hex_val d) of
        (Some x, Some y, Some z, Some u) \<Rightarrow> Some (((x * 16 + y) * 16 + z) * 16 + u)
      | _ \<Rightarrow> None)"

definition unescape :: "char \<Rightarrow> char option" where
  "unescape e =
     (if e = CHR 0x22 \<or> e = CHR 0x5C \<or> e = CHR ''/'' then Some e
      else if e = CHR ''b'' then Some (CHR 0x08)
      else if e = CHR ''f'' then Some (CHR 0x0C)
      else if e = CHR ''n'' then Some (CHR 0x0A)
      else if e = CHR ''r'' then Some (CHR 0x0D)
      else if e = CHR ''t'' then Some (CHR 0x09)
      else None)"

definition cons_str :: "char \<Rightarrow> (string \<times> string) result \<Rightarrow> (string \<times> string) result" where
  "cons_str c r = (case r of Inl e \<Rightarrow> Inl e | Inr (s, rest) \<Rightarrow> Inr (c # s, rest))"

fun scan_string :: "string \<Rightarrow> (string \<times> string) result" where
  "scan_string [] = Inl JSONDecodeError"
| "scan_string (c # cs) =
     (if c = CHR 0x22 then Inr ([], cs)
      else if c = CHR 0x5C then
        (case cs of
           [] \<Rightarrow> Inl JSONDecodeError
         | e # es \<Rightarrow>
             if e = CHR ''u'' then
               (case es of
                  h1 # h2 # h3 # h4 # rest \<Rightarrow>
                    (case hex4 h1 h2 h3 h4 of
                       None \<Rightarrow> Inl JSONDecodeError
                     | Some n \<Rightarrow> if n < 256 then cons_str (char_of n) (scan_string rest) else Inl Unmodelled)
                | _ \<Rightarrow> Inl JSONDecodeError)
             else
               (case unescape e of
                  None \<Rightarrow> Inl JSONDecodeError
                | Some ch \<Rightarrow> cons_str ch (scan_string es)))
      else if (of_char c :: nat) < 32 then Inl JSONDecodeError
      else cons_str c (scan_string cs))"

lemma scan_string_shorter: "scan_string s = Inr (t, r) \<Longrightarrow> length r < length s"
proof (induction s arbitrary: t r rule: scan_string.induct)
  case 1
  then show ?case by simp
next
  case (2 c cs)
  then show ?case
    by (auto simp: cons_str_def split: if_splits list.splits option.splits sum.splits prod.splits)
       force+
qed


definition is_num_char :: "char \<Rightarrow> bool" where
  "is_num_char c = (is_digit c \<or> c = CHR ''-'' \<or> c = CHR ''+'' \<or> c = CHR ''.'' \<or> c = CHR ''e'' \<or> c = CHR ''E'')"

definition valid_exp :: "string \<Rightarrow> bool" where
  "valid_exp r =
     (case r of
        [] \<Rightarrow> False
      | e # t \<Rightarrow>
          (e = CHR ''e'' \<or> e = CHR ''E'') \<and>
          (let ds = (case t of [] \<Rightarrow> [] | s # u \<Rightarrow> if s = CHR ''+'' \<or> s = CHR ''-'' then u else t)
           in ds \<noteq> [] \<and> list_all is_digit ds))"

definition valid_frac_exp :: "string \<Rightarrow> bool" where
  "valid_frac_exp r =
     (case r of
        [] \<Rightarrow> False
      | d # t \<Rightarrow>
          if d = CHR ''.'' then
            takeWhile is_digit t \<noteq> [] \<and>
            (dropWhile is_digit t = [] \<or> valid_exp (dropWhile is_digit t))
          else valid_exp r)"

definition json_number :: "string \<Rightarrow> pyval option" where
  "json_number lit =
     (let neg = (lit \<noteq> [] \<and> hd lit = CHR ''-'');
          body = (if neg then tl lit else lit);
          ip = takeWhile is_digit body;
          rest = dropWhile is_digit body
      in if ip = [] \<or> (1 < length ip \<and> hd ip = CHR ''0'') then None
         else if rest = [] then
           Some (PInt (if neg then - int (nat_of_digits ip) else int (nat_of_digits ip)))
         else if valid_frac_exp rest then Some (PFloat lit)
         else None)"

definition cons_tok :: "token \<Rightarrow> token list result \<Rightarrow> token list result" where
  "cons_tok t r = (case r of Inl e \<Rightarrow> Inl e | Inr ts \<Rightarrow> Inr (t # ts))"

function lex :: "string \<Rightarrow> token list result" where
  "lex [] = Inr []"
| "lex (c # cs) =
     (if json_ws c then lex cs
      else if c = CHR ''{'' then cons_tok TLBrace (lex cs)
      else if c = CHR ''}'' then cons_tok TRBrace (lex cs)
      else if c = CHR ''['' then cons_tok TLBrack (lex cs)
      else if c = CHR '']'' then cons_tok TRBrack (lex cs)
      else if c = CHR '':'' then cons_tok TColon (lex cs)
      else if c = CHR '','' then cons_tok TComma (lex cs)
      else if c = CHR 0x22 then
        (case scan_string cs of
           Inl e \<Rightarrow> Inl e
         | Inr (s, rest) \<Rightarrow> cons_tok (TStr s) (lex rest))
      else if prefix ''null'' (c # cs) then cons_tok (TVal PNone) (lex (drop 3 cs))
      else if prefix ''true'' (c # cs) then cons_tok (TVal (PBool True)) (lex (drop 3 cs))
      else if prefix ''false'' (c # cs) then cons_tok (TVal (PBool False)) (lex (drop 4 cs))
      else if prefix ''NaN'' (c # cs) then cons_tok (TVal (PFloat ''NaN'')) (lex (drop 2 cs))
      else if prefix ''Infinity'' (c # cs) then cons_tok (TVal (PFloat ''Infinity'')) (lex (drop 7 cs))
      else if prefix ''-Infinity'' (c # cs) then cons_tok (TVal (PFloat ''-Infinity'')) (lex (drop 8 cs))
      else if is_num_char c then
        (case json_number (c # takeWhile is_num_char cs) of
           None \<Rightarrow> Inl JSONDecodeError
         | Some v \<Rightarrow> cons_tok (TVal v) (lex (dropWhile is_num_char cs)))
      else Inl JSONDecodeError)"
  by pat_completeness auto
termination
proof (relation "measure length")
  fix c cs x2 x y
  assume "scan_string cs = Inr x2" "(x, y) = x2"
  then show "(y, c # cs) \<in> measure length"
    using scan_string_shorter [of cs x y] by simp
qed (auto intro: le_imp_less_Suc length_dropWhile_le)

datatype frame = InArr "pyval list" | InObj dict string

definition key_colon :: "token list \<Rightarrow> (string \<times> token list) option" where
  "key_colon ts =
     (case ts of
        TStr k # rest \<Rightarrow> (case rest of TColon # rest' \<Rightarrow> Some (k, rest') | _ \<Rightarrow> None)
      | _ \<Rightarrow> None)"

lemma key_colon_shorter: "key_colon ts = Some (k, rest) \<Longrightarrow> length rest < length ts"
  by (auto simp: key_colon_def split: list.splits token.splits)

function pvalue :: "frame list \<Rightarrow> token list \<Rightarrow> pyval result"
  and pafter :: "pyval \<Rightarrow> frame list \<Rightarrow> token list \<Rightarrow> pyval result" where
  "pvalue st [] = Inl JSONDecodeError"
| "pvalue st (t # ts) =
     (case t of
        TVal v \<Rightarrow> pafter v st ts
      | TStr s \<Rightarrow> pafter (PStr s) st ts
      | TLBrack \<Rightarrow>
          if ts \<noteq> [] \<and> hd ts = TRBrack then pafter (PList []) st (tl ts)
          else pvalue (InArr [] # st) ts
      | TLBrace \<Rightarrow>
          if ts \<noteq> [] \<and> hd ts = TRBrace then pafter (PDict []) st (tl ts)
          else (case key_colon ts of
                  None \<Rightarrow> Inl JSONDecodeError
                | Some (k, rest) \<Rightarrow> pvalue (InObj [] k # st) rest)
      | _ \<Rightarrow> Inl JSONDecodeError)"
| "pafter v st [] = (if st = [] then Inr v else Inl JSONDecodeError)"
| "pafter v st (t # ts) =
     (case st of
        [] \<Rightarrow> Inl JSONDecodeError
      | InArr xs # st' \<Rightarrow>
          if t = TComma then pvalue (InArr (xs @ [v]) # st') ts
          else if t = TRBrack then pafter (PList (xs @ [v])) st' ts
          else Inl JSONDecodeError
      | InObj d k # st' \<Rightarrow>
          if t = TComma then
            (case key_colon ts of
               None \<Rightarrow> Inl JSONDecodeError
             | Some (k', rest) \<Rightarrow> pvalue (InObj (AList.update k v d) k' # st') rest)
          else if t = TRBrace then pafter (PDict (AList.update k v d)) st' ts
          else Inl JSONDecodeError)"
  by pat_completeness auto
termination
  by (relation "measure (\<lambda>x. case x of Inl (st, ts) \<Rightarrow> length ts | Inr (v, st, ts) \<Rightarrow> length ts)")
     (auto dest: key_colon_shorter simp: less_Suc_eq)

definition json_loads :: "string \<Rightarrow> pyval result" where
  "json_loads s = bind_r (lex s) (pvalue [])"

text \<open>
  \<open>json.loads\<close> of bytes, as the script calls it on the body of a response: the decoder
  first picks an encoding from the first bytes (a byte order mark, or where the zero
  bytes stand) and decodes the bytes with it. For bytes that are all between 1 and 127
  the encoding is UTF-8 and the text is the bytes themselves; every other body is
  outside the model.
\<close>

definition json_loads_bytes :: "string \<Rightarrow> pyval result" where
  "json_loads_bytes body =
     (if list_all (\<lambda>b. 1 \<le> (of_char b :: nat) \<and> (of_char b :: nat) \<le> 127) body
      then json_loads body else Inl Unmodelled)"

section \<open>The archive-ID scraper of the delete action\<close>

text \<open>
  Lines 170 to 175 of the script, for the lines \<open>fd\<close> yields in order:
  \<^verbatim>\<open>
  for line in fd:
      try:
          key = line[line.index('Archive ID:') + 12:].strip()
          archive_ids.append(key)
      except ValueError:
          pass
  \<close>
  A slice \<open>line[k:]\<close> past the end of the line is the empty string, as \<^const>\<open>drop\<close> is.
\<close>

definition MARKER :: string where
  "MARKER = ''Archive ID:''"

fun scrape :: "string list \<Rightarrow> string list \<Rightarrow> string list" where
  "scrape [] archive_ids = archive_ids"
| "scrape (line # fd) archive_ids =
     (case str_index line MARKER of
        None \<Rightarrow> scrape fd archive_ids
      | Some i \<Rightarrow> scrape fd (archive_ids @ [py_strip (drop (i + 12) line)]))"

text \<open>
  The text layer hands the file over line by line, each line with its newline; a last
  line without one is a line too. The text is the decoded text, with every line ending
  already written as a single newline.
\<close>

fun text_lines :: "string \<Rightarrow> string list" where
  "text_lines [] = []"
| "text_lines (c # cs) =
     (if c = CHR 0x0A then [c] # text_lines cs
      else (case text_lines cs of [] \<Rightarrow> [[c]] | l # ls \<Rightarrow> (c # l) # ls))"

section \<open>The console: \<open>console.print\<close> and its markup\<close>

text \<open>
  \<open>console.print(text)\<close> first renders the text as console markup and raises
  \<open>MarkupError\<close>, printing nothing, when a closing tag closes nothing. What follows is
  the part of the library's \<open>markup.render\<close> that decides this.

  A tag is an opening bracket, one of the characters \<open>a\<close> to \<open>z\<close>, \<open>#\<close>, \<open>/\<close> and \<open>@\<close>, and
  then the text up to the next closing bracket, with no opening bracket in between. The
  backslashes that stand right before the opening bracket belong to the match; an odd
  number of them escapes the tag, which is then text. The scan goes from left to right
  and carries the number of backslashes just read.
\<close>

type_synonym tag = "string \<times> string option"

definition is_tag_start :: "char \<Rightarrow> bool" where
  "is_tag_start c =
     (let n = (of_char c :: nat)
      in (97 \<le> n \<and> n \<le> 122) \<or> c = CHR ''#'' \<or> c = CHR ''/'' \<or> c = CHR ''@'')"

definition in_tag :: "char \<Rightarrow> bool" where
  "in_tag x = (x \<noteq> CHR '']'' \<and> x \<noteq> CHR ''['')"

text \<open>The text after an opening bracket: the tag's text and what follows its closing bracket.\<close>

definition tag_at :: "string \<Rightarrow> (string \<times> string) option" where
  "tag_at xs =
     (case xs of
        [] \<Rightarrow> None
      | c # t \<Rightarrow>
          if is_tag_start c then
            (case dropWhile in_tag xs of
               [] \<Rightarrow> None
             | y # more \<Rightarrow> if y = CHR '']'' then Some (takeWhile in_tag xs, more) else None)
          else None)"

text \<open>\<open>tag_text.partition("=")\<close>: the name, and the parameters when there is an equals sign.\<close>

definition make_tag :: "string \<Rightarrow> tag" where
  "make_tag body =
     (takeWhile (\<lambda>x. x \<noteq> CHR ''='') body,
      case dropWhile (\<lambda>x. x \<noteq> CHR ''='') body of [] \<Rightarrow> None | e # ps \<Rightarrow> Some ps)"

lemma tag_at_shorter: "tag_at xs = Some (body, more) \<Longrightarrow> length more < Suc (length xs)"
proof -
  assume a: "tag_at xs = Some (body, more)"
  then obtain y where "dropWhile in_tag xs = y # more"
    by (auto simp: tag_at_def split: list.splits if_splits)
  then have "length (y # more) \<le> length xs"
    by (metis length_dropWhile_le)
  then show ?thesis by simp
qed

function scan_tags :: "nat \<Rightarrow> string \<Rightarrow> tag list" where
  "scan_tags n [] = []"
| "scan_tags n (x # xs) =
     (if x = CHR 0x5C then scan_tags (Suc n) xs
      else if x = CHR ''['' then
        (case tag_at xs of
           None \<Rightarrow> scan_tags 0 xs
         | Some (body, more) \<Rightarrow> (if even n then [make_tag body] else []) @ scan_tags 0 more)
      else scan_tags 0 xs)"
  by pat_completeness auto
termination
  by (relation "measure (\<lambda>(n, s). length s)") (auto dest: tag_at_shorter)

text \<open>
  The two things the renderer asks of the rest of the library are parameters:
  \<open>style_normalize\<close> is \<open>Style.normalize\<close>, which gives the names of equal styles one
  spelling, and \<open>meta_parses\<close> tells whether the parameters of a handler tag (a tag whose
  name starts with \<open>@\<close>) evaluate.
\<close>

record console =
  style_normalize :: "string \<Rightarrow> string"
  meta_parses :: "string \<Rightarrow> bool"

text \<open>
  The open tags are a stack, the last opened first. \<open>pop_style\<close> takes out the last
  opened tag of the given name.
\<close>

fun pop_style :: "string \<Rightarrow> tag list \<Rightarrow> (tag \<times> tag list) option" where
  "pop_style name [] = None"
| "pop_style name (t # st) =
     (if fst t = name then Some (t, st)
      else (case pop_style name st of None \<Rightarrow> None | Some (u, r) \<Rightarrow> Some (u, t # r)))"

definition handler_error :: "console \<Rightarrow> tag \<Rightarrow> bool" where
  "handler_error c open_tag =
     (case snd open_tag of
        None \<Rightarrow> False
      | Some ps \<Rightarrow> prefix ''@'' (fst open_tag) \<and> ps \<noteq> [] \<and> \<not> meta_parses c ps)"

text \<open>
  A tag whose name starts with \<open>/\<close> closes: with a name, the last opened tag of that
  name, normalised; without one, the last opened tag. It is an error when there is no
  such tag, or when the tag it closes is a handler whose parameters do not evaluate.
  Any other tag opens. Tags left open at the end are no error.
\<close>

fun render_error :: "console \<Rightarrow> tag list \<Rightarrow> tag list \<Rightarrow> bool" where
  "render_error c st [] = False"
| "render_error c st (t # ts) =
     (if prefix ''/'' (fst t) then
        (let style_name = py_strip (tl (fst t))
         in case (if style_name \<noteq> [] then pop_style (style_normalize c style_name) st
                  else (case st of [] \<Rightarrow> None | u # r \<Rightarrow> Some (u, r))) of
              None \<Rightarrow> True
            | Some (open_tag, st') \<Rightarrow> handler_error c open_tag \<or> render_error c st' ts)
      else render_error c ((style_normalize c (fst t), snd t) # st) ts)"

definition markup_error :: "console \<Rightarrow> string \<Rightarrow> bool" where
  "markup_error c text = render_error c [] (scan_tags 0 text)"

section \<open>The world: the service, the console, the log and the file\<close>

text \<open>
  Everything the script does beyond computing is an event of a trace, in the order it
  happens: a request sent to the service through the SDK's client, a record written by
  \<open>logging.error\<close>, a call of \<open>console.print\<close> that printed (the text handed to it and its
  style; how the console lays the text out is outside the model), and the opening,
  reading and closing of a file.
\<close>

datatype request =
    ListVaults string "pyval option"
  | InitiateJob string dict
  | GetJobOutput string string
  | DeleteArchive string string

datatype event =
    Remote request
  | LogError exn
  | Print string "string option"
  | OpenFile string
  | ReadLine string
  | CloseFile string

text \<open>
  The service is not part of the repository: it is a parameter. It has a state of its
  own (\<open>'s\<close>) that every call may change, and a call returns the response or raises.
  \<open>api_list_vaults\<close> takes the \<open>limit\<close> and the \<open>marker\<close> keyword (\<open>None\<close> when the keyword is
  not passed) and returns the response dict; \<open>api_get_job_output\<close> returns the body of the
  response read to its end.
\<close>

record 's glacier =
  api_list_vaults :: "string \<Rightarrow> pyval option \<Rightarrow> 's \<Rightarrow> dict result \<times> 's"
  api_initiate_job :: "string \<Rightarrow> dict \<Rightarrow> 's \<Rightarrow> dict result \<times> 's"
  api_get_job_output :: "string \<Rightarrow> string \<Rightarrow> 's \<Rightarrow> string result \<times> 's"
  api_delete_archive :: "string \<Rightarrow> string \<Rightarrow> 's \<Rightarrow> unit result \<times> 's"

record 's world =
  service :: 's
  trace :: "event list"

definition emit :: "event \<Rightarrow> 's world \<Rightarrow> 's world" where
  "emit e w = w\<lparr>trace := trace w @ [e]\<rparr>"

text \<open>
  \<open>console.print(text, style=style)\<close>: nothing is printed when the markup is in error,
  and \<open>MarkupError\<close> is raised.
\<close>

definition console_print ::
  "console \<Rightarrow> string \<Rightarrow> string option \<Rightarrow> 's world \<Rightarrow> unit result \<times> 's world" where
  "console_print c text style w =
     (if markup_error c text then (Inl MarkupError, w) else (Inr (), emit (Print text style) w))"

definition sent :: "request \<Rightarrow> 's \<Rightarrow> 's world \<Rightarrow> 's world" where
  "sent req s w = \<lparr>service = s, trace = trace w @ [Remote req]\<rparr>"

text \<open>\<open>except ClientError as e\<close> catches exactly the \<open>ClientError\<close>s.\<close>

fun is_client_error :: "exn \<Rightarrow> bool" where
  "is_client_error (ClientError m) = True"
| "is_client_error e = False"

section \<open>The four operations\<close>

text \<open>
  Each operation returns its result, or the exception that escapes it, and the world
  after it. Creating the client (\<open>boto3.client('glacier')\<close>) sends nothing and is taken
  to succeed.
  \<^verbatim>\<open>
  def list_vaults(max_vaults=10, iter_marker=None):
      glacier = boto3.client('glacier')
      if iter_marker is None:
          vaults = glacier.list_vaults(limit=str(max_vaults))
      else:
          vaults = glacier.list_vaults(limit=str(max_vaults), marker=iter_marker)
      marker = vaults.get('Marker')       # None if no more vaults to retrieve
      return vaults['VaultList'], marker
  \<close>
  There is no \<open>try\<close> in it.
\<close>

definition list_vaults ::
  "'s glacier \<Rightarrow> int \<Rightarrow> pyval \<Rightarrow> 's world \<Rightarrow> (pyval \<times> pyval) result \<times> 's world" where
  "list_vaults g max_vaults iter_marker w =
     (let limit = py_str_int max_vaults;
          marker_arg = (if iter_marker = PNone then None else Some iter_marker);
          (r, s) = api_list_vaults g limit marker_arg (service w);
          w' = sent (ListVaults limit marker_arg) s w
      in case r of
           Inl e \<Rightarrow> (Inl e, w')
         | Inr vaults \<Rightarrow>
             (let marker = dict_get vaults ''Marker''
              in case dict_getitem vaults ''VaultList'' of
                   Inl e \<Rightarrow> (Inl e, w')
                 | Inr vault_list \<Rightarrow> (Inr (vault_list, marker), w')))"

text \<open>
  \<^verbatim>\<open>
  def retrieve_inventory(vault_name):
      job_parms = {'Type': 'inventory-retrieval'}
      glacier = boto3.client('glacier')
      try:
          response = glacier.initiate_job(vaultName=vault_name,
                                          jobParameters=job_parms)
      except ClientError as e:
          logging.error(e)
          return None
      return response
  \<close>
\<close>

definition retrieve_inventory ::
  "'s glacier \<Rightarrow> string \<Rightarrow> 's world \<Rightarrow> dict option result \<times> 's world" where
  "retrieve_inventory g vault_name w =
     (let job_parms = [(''Type'', PStr ''inventory-retrieval'')];
          (r, s) = api_initiate_job g vault_name job_parms (service w);
          w' = sent (InitiateJob vault_name job_parms) s w
      in case r of
           Inl e \<Rightarrow> if is_client_error e then (Inr None, emit (LogError e) w') else (Inl e, w')
         | Inr response \<Rightarrow> (Inr (Some response), w'))"

text \<open>
  \<^verbatim>\<open>
  def retrieve_inventory_results(vault_name, job_id):
      glacier = boto3.client('glacier')
      try:
          response = glacier.get_job_output(vaultName=vault_name, jobId=job_id)
      except ClientError as e:
          logging.error(e)
          return None
      return json.loads(response['body'].read())
  \<close>
  The decoded value may itself be \<open>None\<close> (the JSON text \<open>null\<close>).
\<close>

definition retrieve_inventory_results ::
  "'s glacier \<Rightarrow> string \<Rightarrow> string \<Rightarrow> 's world \<Rightarrow> pyval result \<times> 's world" where
  "retrieve_inventory_results g vault_name job_id w =
     (let (r, s) = api_get_job_output g vault_name job_id (service w);
          w' = sent (GetJobOutput vault_name job_id) s w
      in case r of
           Inl e \<Rightarrow> if is_client_error e then (Inr PNone, emit (LogError e) w') else (Inl e, w')
         | Inr body \<Rightarrow> (json_loads_bytes body, w'))"

text \<open>
  \<^verbatim>\<open>
  def delete_archive(vault_name, archive_id):
      glacier = boto3.client('glacier')
      try:
          glacier.delete_archive(vaultName=vault_name, archiveId=archive_id)
      except ClientError as e:
          logging.error(e)
          return False
      return True
  \<close>
\<close>

definition delete_archive ::
  "'s glacier \<Rightarrow> string \<Rightarrow> string \<Rightarrow> 's world \<Rightarrow> bool result \<times> 's world" where
  "delete_archive g vault_name archive_id w =
     (let (r, s) = api_delete_archive g vault_name archive_id (service w);
          w' = sent (DeleteArchive vault_name archive_id) s w
      in case r of
           Inl e \<Rightarrow> if is_client_error e then (Inr False, emit (LogError e) w') else (Inl e, w')
         | Inr u \<Rightarrow> (Inr True, w'))"

section \<open>The dispatcher: \<open>main\<close>\<close>

definition VALID_ACTIONS :: "string list" where
  "VALID_ACTIONS = [''list'', ''start_inventory'', ''get_inventory'', ''delete'']"

text \<open>
  What a run of an action leaves: \<open>Inr ()\<close> when it returns, \<open>Inl e\<close> when the exception
  \<open>e\<close> escapes it, and the world after it. \<open>and_then\<close> is the next statement: it runs
  unless an exception has escaped.
\<close>

type_synonym 's outcome = "unit result \<times> 's world"

definition and_then :: "'s outcome \<Rightarrow> ('s world \<Rightarrow> 's outcome) \<Rightarrow> 's outcome" where
  "and_then out next_step = (case fst out of Inl e \<Rightarrow> out | Inr u \<Rightarrow> next_step (snd out))"

text \<open>
  A \<open>for\<close> loop that prints one formatted line per element, stopping at the first
  element whose line raises, when it is formatted or when it is printed.
\<close>

fun print_each ::
  "console \<Rightarrow> (pyval \<Rightarrow> string result) \<Rightarrow> pyval list \<Rightarrow> 's world \<Rightarrow> 's outcome" where
  "print_each c f [] w = (Inr (), w)"
| "print_each c f (x # xs) w =
     (case f x of
        Inl e \<Rightarrow> (Inl e, w)
      | Inr s \<Rightarrow> and_then (console_print c s None w) (print_each c f xs))"

text \<open>
  \<^verbatim>\<open>f'{vault["NumberOfArchives"]:3d}  {vault["SizeInBytes"]:12d}  {vault["VaultName"]}'\<close>
  The fields are evaluated and formatted from left to right.
\<close>

definition vault_line :: "pyval \<Rightarrow> string result" where
  "vault_line vault =
     bind_r (bind_r (py_getitem vault ''NumberOfArchives'') (format_d 3)) (\<lambda>n.
     bind_r (bind_r (py_getitem vault ''SizeInBytes'') (format_d 12)) (\<lambda>size.
     bind_r (bind_r (py_getitem vault ''VaultName'') py_str) (\<lambda>name.
     Inr (n @ ''  '' @ size @ ''  '' @ name))))"

text \<open>\<^verbatim>\<open>f'  Size: {archive["Size"]:6d},  Archive ID: {archive["ArchiveId"]}'\<close>\<close>

definition archive_line :: "pyval \<Rightarrow> string result" where
  "archive_line archive =
     bind_r (bind_r (py_getitem archive ''Size'') (format_d 6)) (\<lambda>size.
     bind_r (bind_r (py_getitem archive ''ArchiveId'') py_str) (\<lambda>archive_id.
     Inr (''  Size: '' @ size @ '',  Archive ID: '' @ archive_id)))"

text \<open>
  The loop of the \<open>list\<close> action, entered with the first page and its marker:
  \<^verbatim>\<open>
  while True:
      for vault in vaults:
          console.print(f'...')
      if marker is None:
          break
      vaults, marker = list_vaults(iter_marker=marker)
  \<close>
  Nothing bounds the number of rounds: a service that always returns a marker keeps the
  loop running, which is the value \<open>None\<close>.
\<close>

partial_function (option) list_loop ::
  "console \<Rightarrow> 's glacier \<Rightarrow> pyval \<Rightarrow> pyval \<Rightarrow> 's world \<Rightarrow> 's outcome option" where
  "list_loop c g vaults marker w =
     (case py_iter vaults of
        Inl e \<Rightarrow> Some (Inl e, w)
      | Inr vs \<Rightarrow>
          (case print_each c vault_line vs w of
             (Inl e, w1) \<Rightarrow> Some (Inl e, w1)
           | (Inr u, w1) \<Rightarrow>
               if marker = PNone then Some (Inr (), w1)
               else (case list_vaults g 10 marker w1 of
                       (Inl e, w2) \<Rightarrow> Some (Inl e, w2)
                     | (Inr (vaults', marker'), w2) \<Rightarrow> list_loop c g vaults' marker' w2)))"

declare list_loop.simps [code]

text \<open>Lines 137 to 150: the first call comes before the two header lines.\<close>

definition list_action :: "console \<Rightarrow> 's glacier \<Rightarrow> 's world \<Rightarrow> 's outcome option" where
  "list_action c g w =
     (case list_vaults g 10 PNone w of
        (Inl e, w1) \<Rightarrow> Some (Inl e, w1)
      | (Inr (vaults, marker), w1) \<Rightarrow>
          (case and_then (console_print c ''#     Size         Vault Name'' None w1)
                  (console_print c ''------------------------------'' None) of
             (Inl e, w2) \<Rightarrow> Some (Inl e, w2)
           | (Inr u, w2) \<Rightarrow> list_loop c g vaults marker w2))"

text \<open>Lines 151 to 156.\<close>

definition start_inventory_action ::
  "console \<Rightarrow> 's glacier \<Rightarrow> string \<Rightarrow> 's world \<Rightarrow> 's outcome" where
  "start_inventory_action c g vault_name w =
     (case retrieve_inventory g vault_name w of
        (Inl e, w1) \<Rightarrow> (Inl e, w1)
      | (Inr None, w1) \<Rightarrow> (Inr (), w1)
      | (Inr (Some response), w1) \<Rightarrow>
          and_then
            (console_print c (''Initiated inventory-retrieval job for '' @ vault_name) None w1)
            (\<lambda>w2. case bind_r (dict_getitem response ''jobId'') py_str of
                     Inl e \<Rightarrow> (Inl e, w2)
                   | Inr job_id \<Rightarrow> console_print c (''Retrieval Job ID: '' @ job_id) None w2))"

text \<open>Lines 157 to 167.\<close>

definition get_inventory_action ::
  "console \<Rightarrow> 's glacier \<Rightarrow> string \<Rightarrow> string option \<Rightarrow> 's world \<Rightarrow> 's outcome" where
  "get_inventory_action c g vault_name job_arg w =
     (case job_arg of
        None \<Rightarrow>
          console_print c ''Job ID is required to get the inventory results'' (Some ''yellow'') w
      | Some job_id \<Rightarrow>
          (case retrieve_inventory_results g vault_name job_id w of
             (Inl e, w1) \<Rightarrow> (Inl e, w1)
           | (Inr inventory, w1) \<Rightarrow>
               if inventory = PNone then (Inr (), w1)
               else
                 (case bind_r (py_getitem inventory ''VaultARN'') py_str of
                    Inl e \<Rightarrow> (Inl e, w1)
                  | Inr arn \<Rightarrow>
                      and_then (console_print c (''Vault ARN: '' @ arn) None w1)
                        (\<lambda>w2. case bind_r (py_getitem inventory ''ArchiveList'') py_iter of
                                 Inl e \<Rightarrow> (Inl e, w2)
                               | Inr archives \<Rightarrow> print_each c archive_line archives w2))))"

text \<open>
  Lines 177 to 181:
  \<^verbatim>\<open>
  for archive_id in archive_ids:
      success = delete_archive(vault_name, archive_id)
      if success:
          console.print(f'Deleted archive {archive_id} from {vault_name}')
  \<close>
\<close>

fun delete_each ::
  "console \<Rightarrow> 's glacier \<Rightarrow> string \<Rightarrow> string list \<Rightarrow> 's world \<Rightarrow> 's outcome" where
  "delete_each c g vault_name [] w = (Inr (), w)"
| "delete_each c g vault_name (archive_id # archive_ids) w =
     (case delete_archive g vault_name archive_id w of
        (Inl e, w1) \<Rightarrow> (Inl e, w1)
      | (Inr success, w1) \<Rightarrow>
          and_then
            (if success
             then console_print c (''Deleted archive '' @ archive_id @ '' from '' @ vault_name) None w1
             else (Inr (), w1))
            (delete_each c g vault_name archive_ids))"

text \<open>
  Lines 168 to 181. \<open>files\<close> gives the text of each file that exists. \<open>open\<close> of a missing
  file raises; the \<open>with\<close> block closes the file when the reading loop is over, before
  the deletions start.
\<close>

definition delete_action ::
  "console \<Rightarrow> 's glacier \<Rightarrow> (string \<Rightarrow> string option) \<Rightarrow> string \<Rightarrow> 's world \<Rightarrow> 's outcome" where
  "delete_action c g files vault_name w =
     (let w1 = emit (OpenFile ''archive.txt'') w
      in case files ''archive.txt'' of
           None \<Rightarrow> (Inl (FileNotFoundError ''archive.txt''), w1)
         | Some text \<Rightarrow>
             (let fd = text_lines text;
                  w2 = w1\<lparr>trace := trace w1 @ map ReadLine fd\<rparr>;
                  archive_ids = scrape fd [];
                  w3 = emit (CloseFile ''archive.txt'') w2
              in delete_each c g vault_name archive_ids w3))"

text \<open>
  Lines 182 to 184:
  \<^verbatim>\<open>
  console.print(f'ERROR: Action [bold]{args.action}[/bold] is not recognized.', style='red')
  console.print('Valid actions are: [cyan]{}[cyan]'.format(' '.join(VALID_ACTIONS)))
  \<close>
  The action is put inside the markup as it is.
\<close>

definition unknown_action :: "console \<Rightarrow> string \<Rightarrow> 's world \<Rightarrow> 's outcome" where
  "unknown_action c act w =
     and_then
       (console_print c (''ERROR: Action [bold]'' @ act @ ''[/bold] is not recognized.'')
          (Some ''red'') w)
       (console_print c (''Valid actions are: [cyan]'' @ py_join '' '' VALID_ACTIONS @ ''[cyan]'')
          None)"

text \<open>
  The parsed command line. \<open>filename\<close> and \<open>job\<close> are \<open>None\<close> when the flag is absent.
\<close>

record args =
  action :: string
  vault :: string
  debug :: bool
  filename :: "string option"
  job :: "string option"

text \<open>
  \<open>main\<close>, from the parsed arguments on. The logging set-up prints nothing and is left
  out; \<open>debug\<close> only chooses the logging level, and an error record passes both levels.
\<close>

definition main ::
  "console \<Rightarrow> 's glacier \<Rightarrow> (string \<Rightarrow> string option) \<Rightarrow> args \<Rightarrow> 's world \<Rightarrow> 's outcome option" where
  "main c g files a w =
     (let vault_name = vault a
      in if action a = ''list'' then list_action c g w
         else if action a = ''start_inventory'' then Some (start_inventory_action c g vault_name w)
         else if action a = ''get_inventory'' then
           Some (get_inventory_action c g vault_name (job a) w)
         else if action a = ''delete'' then Some (delete_action c g files vault_name w)
         else Some (unknown_action c (action a) w))"

text \<open>
  The script ends when \<open>main\<close> returns, and the interpreter then exits with status 0; an
  exception that escapes \<open>main\<close> ends it with status 1.
\<close>

definition exit_status :: "'s outcome \<Rightarrow> nat" where
  "exit_status out = (case fst out of Inl e \<Rightarrow> 1 | Inr u \<Rightarrow> 0)"

section \<open>What a run shows, and services for the examples\<close>


fun requests :: "event list \<Rightarrow> request list" where
  "requests [] = []"
| "requests (Remote r # es) = r # requests es"
| "requests (e # es) = requests es"

fun opened :: "event list \<Rightarrow> string list" where
  "opened [] = []"
| "opened (OpenFile f # es) = f # opened es"
| "opened (e # es) = opened es"

fun is_file_event :: "event \<Rightarrow> bool" where
  "is_file_event (OpenFile f) = True"
| "is_file_event (ReadLine l) = True"
| "is_file_event (CloseFile f) = True"
| "is_file_event e = False"





text \<open>
  A console for the examples: it normalises a style name by stripping it, and no
  handler parameters evaluate.
\<close>

definition plain_console :: console where
  "plain_console = \<lparr>style_normalize = py_strip, meta_parses = (\<lambda>ps. False)\<rparr>"

text \<open>A service that rejects every request.\<close>

definition rejecting :: "unit glacier" where
  "rejecting =
     \<lparr>api_list_vaults = (\<lambda>limit marker s. (Inl (ClientError ''AccessDeniedException''), s)),
      api_initiate_job = (\<lambda>v parms s. (Inl (ClientError ''AccessDeniedException''), s)),
      api_get_job_output = (\<lambda>v j s. (Inl (ClientError ''AccessDeniedException''), s)),
      api_delete_archive = (\<lambda>v a s. (Inl (ClientError ''AccessDeniedException''), s))\<rparr>"

text \<open>
  A small vault: its state is the list of the archive IDs it holds. Deleting an ID it
  does not hold is rejected. The output of every job is the inventory of the sample.
\<close>

definition sample_inventory :: string where
  "sample_inventory =
     ''{\"VaultARN\": \"arn:x\", \"ArchiveList\": [{\"Size\": 5, \"ArchiveId\": \"a1\"}]}''"

definition small_vault :: "string list glacier" where
  "small_vault =
     \<lparr>api_list_vaults = (\<lambda>limit marker s. (Inr [(''VaultList'', PList [])], s)),
      api_initiate_job = (\<lambda>v parms s. (Inr [(''jobId'', PStr ''j1'')], s)),
      api_get_job_output = (\<lambda>v j s. (Inr sample_inventory, s)),
      api_delete_archive =
        (\<lambda>v a s. if a \<in> set s then (Inr (), removeAll a s)
                  else (Inl (ClientError ''ResourceNotFoundException''), s))\<rparr>"



text \<open>The log of the sample.\<close>

definition sample_log :: string where
  "sample_log =
     ''Size:     10,  Archive ID: xyz-001\<newline>(garbage line with no marker)\<newline>Size:     20,  Archive ID: xyz-002\<newline>''"

section \<open>The scraper\<close>

lemma str_index_None: "str_index s sub = None \<longleftrightarrow> \<not> sublist sub s"
  by (induction s) (auto simp: sublist_Cons_right)

lemma str_index_Some_prefix:
  "str_index s sub = Some i \<Longrightarrow> prefix sub (drop i s) \<and> i \<le> length s"
  by (induction s arbitrary: i) (auto split: if_splits)

lemma str_index_least: "str_index s sub = Some i \<Longrightarrow> j < i \<Longrightarrow> \<not> prefix sub (drop j s)"
proof (induction s arbitrary: i j)
  case Nil
  then show ?case by (auto split: if_splits)
next
  case (Cons c cs)
  then show ?case by (cases j) (auto split: if_splits)
qed

lemma prefix_short: "prefix xs (ys @ zs) \<Longrightarrow> length xs \<le> length ys \<Longrightarrow> prefix xs ys"
  by (meson prefix_def prefix_length_prefix)

lemma str_index_prefix: "prefix sub s \<Longrightarrow> str_index s sub = Some 0"
  by (cases s) auto

lemma str_index_first:
  "\<not> sublist sub (pre @ butlast sub) \<Longrightarrow> str_index (pre @ sub @ post) sub = Some (length pre)"
proof (induction pre)
  case Nil
  then show ?case by (simp add: str_index_prefix)
next
  case (Cons c pre)
  have ne: "sub \<noteq> []" using Cons.prems by auto
  have "\<not> prefix sub (c # pre @ sub @ post)"
  proof
    assume p: "prefix sub (c # pre @ sub @ post)"
    have "c # pre @ sub @ post = (c # pre @ butlast sub) @ (last sub # post)"
      using ne by simp
    moreover have "length sub \<le> length (c # pre @ butlast sub)" using ne by simp
    ultimately have "prefix sub (c # pre @ butlast sub)"
      using p prefix_short by metis
    then show False using Cons.prems by (auto dest: prefix_imp_sublist)
  qed
  moreover have "\<not> sublist sub (pre @ butlast sub)"
    using Cons.prems by (auto simp: sublist_Cons_right)
  ultimately show ?case using Cons.IH by simp
qed

lemma MARKER_length: "length MARKER = 11"
  by (simp add: MARKER_def)

lemma scrape_acc: "scrape fd ids = ids @ scrape fd []"
proof (induction fd arbitrary: ids)
  case Nil
  then show ?case by simp
next
  case (Cons line fd)
  show ?case
  proof (cases "str_index line MARKER")
    case None
    then show ?thesis using Cons.IH [of ids] by simp
  next
    case (Some i)
    then show ?thesis
      using Cons.IH [of "ids @ [py_strip (drop (i + 12) line)]"]
        Cons.IH [of "[py_strip (drop (i + 12) line)]"] by simp
  qed
qed

lemma scrape_append: "scrape (fd1 @ fd2) [] = scrape fd1 [] @ scrape fd2 []"
proof (induction fd1)
  case Nil
  then show ?case by simp
next
  case (Cons line fd1)
  show ?case
  proof (cases "str_index line MARKER")
    case None
    then show ?thesis using Cons.IH by simp
  next
    case (Some i)
    then show ?thesis
      using Cons.IH scrape_acc [of "fd1 @ fd2" "[py_strip (drop (i + 12) line)]"]
        scrape_acc [of fd1 "[py_strip (drop (i + 12) line)]"] by simp
  qed
qed

lemma scrape_no_marker: "\<not> sublist MARKER line \<Longrightarrow> scrape [line] [] = []"
  using str_index_None [of line MARKER] by simp

lemma scrape_marker:
  assumes "\<not> sublist MARKER (pre @ butlast MARKER)"
  shows "scrape [pre @ MARKER @ post] [] = [py_strip (drop 1 post)]"
proof -
  have "str_index (pre @ MARKER @ post) MARKER = Some (length pre)"
    using assms by (rule str_index_first)
  moreover have "drop (length pre + 12) (pre @ MARKER @ post) = drop 1 post"
    by (simp add: MARKER_length)
  ultimately show ?thesis by simp
qed

lemma scrape_length: "length (scrape fd []) = length (filter (sublist MARKER) fd)"
proof (induction fd)
  case Nil
  then show ?case by simp
next
  case (Cons line fd)
  show ?case
  proof (cases "str_index line MARKER")
    case None
    then show ?thesis using Cons.IH str_index_None [of line MARKER] by simp
  next
    case (Some i)
    then have "sublist MARKER line" using str_index_None [of line MARKER] by auto
    then show ?thesis
      using Some Cons.IH scrape_acc [of fd "[py_strip (drop (i + 12) line)]"] by simp
  qed
qed

lemma py_strip_drop_space: "is_space c \<Longrightarrow> py_strip (c # s) = py_strip s"
  by (simp add: py_strip_def)

text \<open>
  C1, as the code has it. For every sequence of lines the scraper yields one ID per line
  that contains the marker, in the order of the lines, and skips the other lines. The ID
  of a line is what follows the first occurrence of the marker and the one character
  after it, stripped of surrounding whitespace; this is the remainder after the marker,
  stripped, whenever the line ends at the marker or the character after the marker is
  whitespace. The log of the sample yields \<open>xyz-001\<close> and \<open>xyz-002\<close>, in that order.
\<close>

theorem scrape_ids:
  "(\<forall>fd. length (scrape fd []) = length (filter (sublist MARKER) fd)) \<and>
   (\<forall>fd1 fd2. scrape (fd1 @ fd2) [] = scrape fd1 [] @ scrape fd2 []) \<and>
   (\<forall>line. \<not> sublist MARKER line \<longrightarrow> scrape [line] [] = []) \<and>
   (\<forall>pre post. \<not> sublist MARKER (pre @ butlast MARKER) \<longrightarrow>
      scrape [pre @ MARKER @ post] [] = [py_strip (drop 1 post)]) \<and>
   (\<forall>pre post. \<not> sublist MARKER (pre @ butlast MARKER) \<and> (post = [] \<or> is_space (hd post)) \<longrightarrow>
      scrape [pre @ MARKER @ post] [] = [py_strip post]) \<and>
   scrape (text_lines sample_log) [] = [''xyz-001'', ''xyz-002'']"
proof -
  have a: "\<forall>fd. length (scrape fd []) = length (filter (sublist MARKER) fd)"
    by (simp add: scrape_length)
  have b: "\<forall>fd1 fd2. scrape (fd1 @ fd2) [] = scrape fd1 [] @ scrape fd2 []"
    by (simp add: scrape_append)
  have c: "\<forall>line. \<not> sublist MARKER line \<longrightarrow> scrape [line] [] = []"
    using scrape_no_marker by blast
  have d: "\<forall>pre post. \<not> sublist MARKER (pre @ butlast MARKER) \<longrightarrow>
      scrape [pre @ MARKER @ post] [] = [py_strip (drop 1 post)]"
    using scrape_marker by blast
  have e: "\<forall>pre post. \<not> sublist MARKER (pre @ butlast MARKER) \<and> (post = [] \<or> is_space (hd post)) \<longrightarrow>
      scrape [pre @ MARKER @ post] [] = [py_strip post]"
  proof (intro allI impI)
    fix pre post
    assume h: "\<not> sublist MARKER (pre @ butlast MARKER) \<and> (post = [] \<or> is_space (hd post))"
    have "py_strip (drop 1 post) = py_strip post"
    proof (cases post)
      case Nil
      then show ?thesis by simp
    next
      case (Cons x xs)
      then show ?thesis using h by (simp add: py_strip_drop_space)
    qed
    then show "scrape [pre @ MARKER @ post] [] = [py_strip post]"
      using h scrape_marker [of pre post] by simp
  qed
  have f: "scrape (text_lines sample_log) [] = [''xyz-001'', ''xyz-002'']"
    by (simp add: sample_log_def MARKER_def py_strip_def is_space_def)
  from a b c d e f show ?thesis by blast
qed

theorem scrape_ids_witness:
  "\<not> sublist MARKER (''Size:     10,  '' @ butlast MARKER) \<and>
   scrape [''Size:     10,  '' @ MARKER @ '' xyz-001''] [] = [''xyz-001'']"
proof -
  have h: "\<not> sublist MARKER (''Size:     10,  '' @ butlast MARKER)"
    by (simp add: MARKER_def sublist_code)
  have "scrape [''Size:     10,  '' @ MARKER @ '' xyz-001''] [] = [py_strip (drop 1 '' xyz-001'')]"
    using scrape_ids h by blast
  then show ?thesis using h by (simp add: py_strip_def is_space_def)
qed

text \<open>
  The claim as the specification words it, the ID being the remainder of the line after
  the marker, fails where the ID follows the colon at once: its first character is lost.
\<close>

theorem scrape_remainder_counterexample:
  "scrape [[] @ MARKER @ ''abc''] [] = [''bc''] \<and>
   scrape [[] @ MARKER @ ''abc''] [] \<noteq> [py_strip ''abc'']"
  by (simp add: MARKER_def py_strip_def is_space_def)

lemma py_strip_spec:
  "\<exists>a b. s = a @ py_strip s @ b \<and> list_all is_space a \<and> list_all is_space b \<and>
     (py_strip s = [] \<or> (\<not> is_space (hd (py_strip s)) \<and> \<not> is_space (last (py_strip s))))"
proof -
  define t where "t = dropWhile is_space s"
  define u where "u = dropWhile is_space (rev t)"
  define a where "a = takeWhile is_space s"
  define b where "b = rev (takeWhile is_space (rev t))"
  have ps: "py_strip s = rev u" by (simp add: py_strip_def t_def u_def)
  have "rev t = takeWhile is_space (rev t) @ u" by (simp add: u_def)
  then have "rev (rev t) = rev (takeWhile is_space (rev t) @ u)" by simp
  then have t: "t = rev u @ b" by (simp add: b_def)
  have "s = takeWhile is_space s @ dropWhile is_space s" by simp
  then have s: "s = a @ rev u @ b" using t unfolding a_def t_def by simp
  have sa: "list_all is_space a"
    by (auto simp: a_def list_all_iff dest: set_takeWhileD)
  have sb: "list_all is_space b"
    by (auto simp: b_def list_all_iff dest: set_takeWhileD)
  have ends: "\<not> is_space (hd (rev u)) \<and> \<not> is_space (last (rev u))" if ne: "rev u \<noteq> []"
  proof -
    have "u \<noteq> []" using ne by simp
    then have l: "\<not> is_space (hd u)" unfolding u_def by (rule hd_dropWhile)
    have "t \<noteq> []" using t ne by simp
    then have "\<not> is_space (hd t)" unfolding t_def by (rule hd_dropWhile)
    moreover have "hd t = hd (rev u)" using t ne by (metis hd_append2)
    ultimately show ?thesis using l ne by (simp add: last_rev)
  qed
  show ?thesis using s sa sb ends ps by metis
qed

text \<open>
  C10. For every line that contains the marker, the scraper takes the text that starts
  12 characters after the first occurrence of the marker, which is 11 characters long,
  and strips it: the ID is that text without the whitespace at its two ends, so that
  it neither starts nor ends with whitespace. The character after the marker is dropped
  whatever it is. So when the ID follows the colon at once, the scraper yields the ID
  without its first character, as for the line \<open>Archive ID:abc\<close> followed by a space and a
  newline, which yields \<open>bc\<close>.
\<close>

theorem scrape_skips_12:
  "length MARKER = 11 \<and>
   (\<forall>line. sublist MARKER line \<longrightarrow>
      (\<exists>i. take 11 (drop i line) = MARKER \<and> (\<forall>j<i. take 11 (drop j line) \<noteq> MARKER) \<and>
           scrape [line] [] = [py_strip (drop (i + 12) line)] \<and>
           (\<exists>a key b. scrape [line] [] = [key] \<and> drop (i + 12) line = a @ key @ b \<and>
              list_all is_space a \<and> list_all is_space b \<and>
              (key = [] \<or> (\<not> is_space (hd key) \<and> \<not> is_space (last key)))))) \<and>
   (\<forall>pre c rest. \<not> sublist MARKER (pre @ butlast MARKER) \<longrightarrow>
      scrape [pre @ MARKER @ c # rest] [] = [py_strip rest]) \<and>
   scrape [''Size: 7,  Archive ID:abc \<newline>''] [] = [''bc''] \<and>
   py_strip [CHR 0x09, CHR '' '', CHR ''b'', CHR '' '', CHR ''c'', CHR '' '', CHR 0x0A] = ''b c''"
proof -
  have a: "\<exists>i. take 11 (drop i line) = MARKER \<and> (\<forall>j<i. take 11 (drop j line) \<noteq> MARKER) \<and>
           scrape [line] [] = [py_strip (drop (i + 12) line)] \<and>
           (\<exists>a key b. scrape [line] [] = [key] \<and> drop (i + 12) line = a @ key @ b \<and>
              list_all is_space a \<and> list_all is_space b \<and>
              (key = [] \<or> (\<not> is_space (hd key) \<and> \<not> is_space (last key))))"
    if h: "sublist MARKER line" for line
  proof -
    obtain i where i: "str_index line MARKER = Some i"
      using h str_index_None [of line MARKER] by auto
    have "prefix MARKER (drop i line)" using i str_index_Some_prefix by blast
    then have 1: "take 11 (drop i line) = MARKER"
      by (auto simp: prefix_def MARKER_length)
    have 2: "take 11 (drop j line) \<noteq> MARKER" if "j < i" for j
    proof
      assume "take 11 (drop j line) = MARKER"
      then have "prefix MARKER (drop j line)" by (metis take_is_prefix)
      then show False using str_index_least [OF i that] by simp
    qed
    have 3: "scrape [line] [] = [py_strip (drop (i + 12) line)]" using i by simp
    have 4: "\<exists>a key b. scrape [line] [] = [key] \<and> drop (i + 12) line = a @ key @ b \<and>
              list_all is_space a \<and> list_all is_space b \<and>
              (key = [] \<or> (\<not> is_space (hd key) \<and> \<not> is_space (last key)))"
      using 3 py_strip_spec [of "drop (i + 12) line"] by metis
    from 1 2 3 4 show ?thesis by blast
  qed
  have b: "scrape [pre @ MARKER @ c # rest] [] = [py_strip rest]"
    if "\<not> sublist MARKER (pre @ butlast MARKER)" for pre c rest
    using scrape_marker [OF that, of "c # rest"] by simp
  have c: "scrape [''Size: 7,  Archive ID:abc \<newline>''] [] = [''bc'']"
    by (simp add: MARKER_def py_strip_def is_space_def)
  have d: "py_strip [CHR 0x09, CHR '' '', CHR ''b'', CHR '' '', CHR ''c'', CHR '' '', CHR 0x0A] = ''b c''"
    by (simp add: py_strip_def is_space_def)
  from a b c d MARKER_length show ?thesis by blast
qed

theorem scrape_skips_12_witness:
  "sublist MARKER ''Size: 7,  Archive ID:abc \<newline>'' \<and>
   \<not> sublist MARKER (''Size: 7,  '' @ butlast MARKER) \<and>
   scrape [''Size: 7,  '' @ MARKER @ CHR ''a'' # ''bc \<newline>''] [] = [''bc''] \<and>
   py_strip ''abc \<newline>'' = ''abc''"
proof -
  have h1: "sublist MARKER ''Size: 7,  Archive ID:abc \<newline>''"
    by (simp add: MARKER_def sublist_code)
  have h2: "\<not> sublist MARKER (''Size: 7,  '' @ butlast MARKER)"
    by (simp add: MARKER_def sublist_code)
  have "scrape [''Size: 7,  '' @ MARKER @ CHR ''a'' # ''bc \<newline>''] [] = [py_strip ''bc \<newline>'']"
    using scrape_skips_12 h2 by blast
  then have "scrape [''Size: 7,  '' @ MARKER @ CHR ''a'' # ''bc \<newline>''] [] = [''bc'']"
    by (simp add: py_strip_def is_space_def)
  moreover have "py_strip ''abc \<newline>'' = ''abc''"
    by (simp add: py_strip_def is_space_def)
  ultimately show ?thesis using h1 h2 by simp
qed

section \<open>The operations and remote failures\<close>

lemma requests_append: "requests (xs @ ys) = requests xs @ requests ys"
  by (induction xs rule: requests.induct) simp_all


lemma opened_append: "opened (xs @ ys) = opened xs @ opened ys"
  by (induction xs rule: opened.induct) simp_all

lemma opened_no_file_event: "\<forall>e\<in>set es. \<not> is_file_event e \<Longrightarrow> opened es = []"
  by (induction es rule: opened.induct) simp_all

lemma retrieve_inventory_client_error:
  assumes "is_client_error e"
    and "api_initiate_job g v [(''Type'', PStr ''inventory-retrieval'')] (service w) = (Inl e, s)"
  shows "retrieve_inventory g v w =
    (Inr None, \<lparr>service = s, trace = trace w @
       [Remote (InitiateJob v [(''Type'', PStr ''inventory-retrieval'')]), LogError e]\<rparr>)"
  using assms by (simp add: retrieve_inventory_def sent_def emit_def)

lemma retrieve_inventory_results_client_error:
  assumes "is_client_error e" and "api_get_job_output g v j (service w) = (Inl e, s)"
  shows "retrieve_inventory_results g v j w =
    (Inr PNone, \<lparr>service = s, trace = trace w @ [Remote (GetJobOutput v j), LogError e]\<rparr>)"
  using assms by (simp add: retrieve_inventory_results_def sent_def emit_def)

lemma delete_archive_client_error:
  assumes "is_client_error e" and "api_delete_archive g v a (service w) = (Inl e, s)"
  shows "delete_archive g v a w =
    (Inr False, \<lparr>service = s, trace = trace w @ [Remote (DeleteArchive v a), LogError e]\<rparr>)"
  using assms by (simp add: delete_archive_def sent_def emit_def)

lemma delete_archive_other_error:
  assumes "\<not> is_client_error e" and "api_delete_archive g v a (service w) = (Inl e, s)"
  shows "delete_archive g v a w =
    (Inl e, \<lparr>service = s, trace = trace w @ [Remote (DeleteArchive v a)]\<rparr>)"
  using assms by (simp add: delete_archive_def sent_def emit_def)

lemma delete_archive_success:
  assumes "api_delete_archive g v a (service w) = (Inr u, s)"
  shows "delete_archive g v a w =
    (Inr True, \<lparr>service = s, trace = trace w @ [Remote (DeleteArchive v a)]\<rparr>)"
  using assms by (simp add: delete_archive_def sent_def)

lemma list_vaults_error:
  assumes "api_list_vaults g (py_str_int n) (if m = PNone then None else Some m) (service w) = (Inl e, s)"
  shows "list_vaults g n m w =
    (Inl e, \<lparr>service = s, trace = trace w @
       [Remote (ListVaults (py_str_int n) (if m = PNone then None else Some m))]\<rparr>)"
  using assms by (simp add: list_vaults_def sent_def Let_def)

text \<open>
  C2, as the code has it. In \<open>retrieve_inventory\<close>, \<open>retrieve_inventory_results\<close> and
  \<open>delete_archive\<close> every \<open>ClientError\<close> of the remote call is handled inside the operation:
  it is logged and the operation returns \<open>None\<close>, \<open>None\<close> and \<open>False\<close>. \<open>list_vaults\<close> has no
  handler: a failure of its remote call escapes it, as the exception it is.
\<close>

theorem client_error_handled:
  "is_client_error e \<longrightarrow>
     (api_initiate_job g v [(''Type'', PStr ''inventory-retrieval'')] (service w) = (Inl e, s) \<longrightarrow>
        retrieve_inventory g v w =
          (Inr None, \<lparr>service = s, trace = trace w @
             [Remote (InitiateJob v [(''Type'', PStr ''inventory-retrieval'')]), LogError e]\<rparr>)) \<and>
     (api_get_job_output g v j (service w) = (Inl e, s) \<longrightarrow>
        retrieve_inventory_results g v j w =
          (Inr PNone, \<lparr>service = s, trace = trace w @ [Remote (GetJobOutput v j), LogError e]\<rparr>)) \<and>
     (api_delete_archive g v a (service w) = (Inl e, s) \<longrightarrow>
        delete_archive g v a w =
          (Inr False, \<lparr>service = s, trace = trace w @ [Remote (DeleteArchive v a), LogError e]\<rparr>)) \<and>
     (api_list_vaults g (py_str_int n) (if m = PNone then None else Some m) (service w) = (Inl e, s) \<longrightarrow>
        list_vaults g n m w =
          (Inl e, \<lparr>service = s, trace = trace w @
             [Remote (ListVaults (py_str_int n) (if m = PNone then None else Some m))]\<rparr>))"
  using retrieve_inventory_client_error [of e g v w s]
    retrieve_inventory_results_client_error [of e g v j w s]
    delete_archive_client_error [of e g v a w s]
    list_vaults_error [of g n m w e s]
  by blast

theorem client_error_handled_witness:
  "is_client_error (ClientError ''AccessDeniedException'') \<and>
   retrieve_inventory rejecting ''v'' \<lparr>service = (), trace = []\<rparr> =
     (Inr None, \<lparr>service = (), trace =
        [Remote (InitiateJob ''v'' [(''Type'', PStr ''inventory-retrieval'')]),
         LogError (ClientError ''AccessDeniedException'')]\<rparr>) \<and>
   retrieve_inventory_results rejecting ''v'' ''j'' \<lparr>service = (), trace = []\<rparr> =
     (Inr PNone, \<lparr>service = (), trace =
        [Remote (GetJobOutput ''v'' ''j''), LogError (ClientError ''AccessDeniedException'')]\<rparr>) \<and>
   delete_archive rejecting ''v'' ''a'' \<lparr>service = (), trace = []\<rparr> =
     (Inr False, \<lparr>service = (), trace =
        [Remote (DeleteArchive ''v'' ''a''), LogError (ClientError ''AccessDeniedException'')]\<rparr>) \<and>
   list_vaults rejecting 10 PNone \<lparr>service = (), trace = []\<rparr> =
     (Inl (ClientError ''AccessDeniedException''), \<lparr>service = (), trace =
        [Remote (ListVaults (py_str_int 10) None)]\<rparr>)"
  using client_error_handled [of "ClientError ''AccessDeniedException''" rejecting "''v''"
      "\<lparr>service = (), trace = []\<rparr>" "()" "''j''" "''a''" 10 PNone]
  by (simp add: rejecting_def)

text \<open>
  The claim as the specification words it fails for \<open>list_vaults\<close>: against a service that
  rejects the request, the \<open>ClientError\<close> escapes the operation, no sentinel is returned
  and nothing is logged.
\<close>

theorem list_vaults_escapes_counterexample:
  "list_vaults rejecting 10 PNone \<lparr>service = (), trace = []\<rparr> =
     (Inl (ClientError ''AccessDeniedException''),
      \<lparr>service = (), trace = [Remote (ListVaults ''10'' None)]\<rparr>)"
  by code_simp

section \<open>Texts the console accepts\<close>

lemma scan_tags_no_bracket: "CHR ''['' \<notin> set xs \<Longrightarrow> \<exists>m. scan_tags n (xs @ ys) = scan_tags m ys"
proof (induction xs arbitrary: n)
  case Nil
  then show ?case by auto
next
  case (Cons x xs)
  then have "\<exists>m. scan_tags (Suc n) (xs @ ys) = scan_tags m ys"
    and "\<exists>m. scan_tags 0 (xs @ ys) = scan_tags m ys"
    by auto
  then show ?case using Cons.prems by auto
qed

lemma no_bracket_accepted: "CHR ''['' \<notin> set t \<Longrightarrow> \<not> markup_error c t"
  using scan_tags_no_bracket [of t _ "[]"] by (auto simp: markup_error_def)

lemma console_print_accepted:
  "\<not> markup_error c t \<Longrightarrow> console_print c t style w = (Inr (), w\<lparr>trace := trace w @ [Print t style]\<rparr>)"
  by (simp add: console_print_def emit_def)

lemma console_print_refused:
  "markup_error c t \<Longrightarrow> console_print c t style w = (Inl MarkupError, w)"
  by (simp add: console_print_def)

section \<open>Deleting archives\<close>

lemma delete_archive_no_client_error:
  "fst (delete_archive g v a w) = Inl e \<Longrightarrow> \<not> is_client_error e"
  by (auto simp: delete_archive_def Let_def split: prod.splits sum.splits if_splits)

lemma delete_archive_trace:
  "\<exists>es. trace (snd (delete_archive g v a w)) = trace w @ es \<and>
        (\<forall>e\<in>set es. \<not> is_file_event e) \<and> requests es = [DeleteArchive v a]"
proof (cases "api_delete_archive g v a (service w)")
  case (Pair r s)
  show ?thesis
  proof (cases r)
    case (Inl e)
    show ?thesis
    proof (cases "is_client_error e")
      case True
      have "trace (snd (delete_archive g v a w)) = trace w @ [Remote (DeleteArchive v a), LogError e]"
        using delete_archive_client_error [of e g v a w s] True Pair Inl by simp
      then show ?thesis by (intro exI [of _ "[Remote (DeleteArchive v a), LogError e]"]) simp
    next
      case False
      have "trace (snd (delete_archive g v a w)) = trace w @ [Remote (DeleteArchive v a)]"
        using delete_archive_other_error [of e g v a w s] False Pair Inl by simp
      then show ?thesis by (intro exI [of _ "[Remote (DeleteArchive v a)]"]) simp
    qed
  next
    case (Inr u)
    have "trace (snd (delete_archive g v a w)) = trace w @ [Remote (DeleteArchive v a)]"
      using delete_archive_success [of g v a w u s] Pair Inr by simp
    then show ?thesis by (intro exI [of _ "[Remote (DeleteArchive v a)]"]) simp
  qed
qed


lemma delete_each_trace:
  "\<exists>es. trace (snd (delete_each c g v ids w)) = trace w @ es \<and>
        (\<forall>e\<in>set es. \<not> is_file_event e) \<and>
        prefix (requests es) (map (DeleteArchive v) ids) \<and>
        (fst (delete_each c g v ids w) = Inr () \<longrightarrow> requests es = map (DeleteArchive v) ids) \<and>
        (\<forall>e. fst (delete_each c g v ids w) = Inl e \<longrightarrow> \<not> is_client_error e)"
proof (induction ids arbitrary: w)
  case Nil
  show ?case by (intro exI [of _ "[]"]) simp
next
  case (Cons a ids)
  define msg where "msg = ''Deleted archive '' @ a @ '' from '' @ v"
  obtain r w1 where d: "delete_archive g v a w = (r, w1)" by fastforce
  obtain es1 where t1: "trace w1 = trace w @ es1"
    and nf1: "\<forall>e\<in>set es1. \<not> is_file_event e"
    and rq1: "requests es1 = [DeleteArchive v a]"
    using delete_archive_trace [of g v a w] d by auto
  have stop: ?case
    if out: "delete_each c g v (a # ids) w = (Inl e, w1)" and nc: "\<not> is_client_error e" for e
    using out nc t1 nf1 rq1 by (intro exI [of _ es1]) simp
  show ?case
  proof (cases r)
    case (Inl e)
    have "\<not> is_client_error e"
      using delete_archive_no_client_error [of g v a w e] d Inl by simp
    moreover have "delete_each c g v (a # ids) w = (Inl e, w1)" using d Inl by simp
    ultimately show ?thesis by (rule stop [rotated])
  next
    case (Inr b)
    show ?thesis
    proof (cases "b \<and> markup_error c msg")
      case True
      then have "delete_each c g v (a # ids) w = (Inl MarkupError, w1)"
        using d Inr by (simp add: and_then_def console_print_def msg_def)
      then show ?thesis by (rule stop) simp
    next
      case False
      define ps where "ps = (if b then [Print msg None] else [])"
      define w2 where "w2 = w1\<lparr>trace := trace w1 @ ps\<rparr>"
      have step: "delete_each c g v (a # ids) w = delete_each c g v ids w2"
        using d Inr False
        by (auto simp: and_then_def console_print_def msg_def w2_def ps_def emit_def)
      have t2: "trace w2 = trace w @ es1 @ ps" using t1 by (simp add: w2_def)
      obtain es2 where t3: "trace (snd (delete_each c g v ids w2)) = trace w2 @ es2"
        and nf2: "\<forall>e\<in>set es2. \<not> is_file_event e"
        and rq2: "prefix (requests es2) (map (DeleteArchive v) ids)"
        and all2: "fst (delete_each c g v ids w2) = Inr () \<longrightarrow> requests es2 = map (DeleteArchive v) ids"
        and nc2: "\<forall>e. fst (delete_each c g v ids w2) = Inl e \<longrightarrow> \<not> is_client_error e"
        using Cons.IH [of w2] by blast
      have nfp: "\<forall>e\<in>set ps. \<not> is_file_event e" by (simp add: ps_def)
      have rqp: "requests ps = []" by (simp add: ps_def)
      have "trace (snd (delete_each c g v (a # ids) w)) = trace w @ (es1 @ ps @ es2)"
        using step t2 t3 by simp
      moreover have "\<forall>e\<in>set (es1 @ ps @ es2). \<not> is_file_event e"
        using nf1 nfp nf2 by auto
      moreover have "prefix (requests (es1 @ ps @ es2)) (map (DeleteArchive v) (a # ids))"
        using rq1 rqp rq2 by (simp add: requests_append)
      moreover have "fst (delete_each c g v (a # ids) w) = Inr () \<longrightarrow>
          requests (es1 @ ps @ es2) = map (DeleteArchive v) (a # ids)"
        using step all2 rq1 rqp by (simp add: requests_append)
      moreover have "\<forall>e. fst (delete_each c g v (a # ids) w) = Inl e \<longrightarrow> \<not> is_client_error e"
        using step nc2 by simp
      ultimately show ?thesis by blast
    qed
  qed
qed




section \<open>The delete action and its file\<close>

lemma opened_ReadLine: "opened (map ReadLine fd) = []"
  by (induction fd) simp_all

lemma requests_ReadLine: "requests (map ReadLine fd) = []"
  by (induction fd) simp_all

lemma text_lines_concat: "concat (text_lines t) = t"
  by (induction t) (auto split: list.splits)

lemma delete_action_missing:
  "files ''archive.txt'' = None \<Longrightarrow>
   delete_action c g files v w =
     (Inl (FileNotFoundError ''archive.txt''), w\<lparr>trace := trace w @ [OpenFile ''archive.txt'']\<rparr>)"
  by (simp add: delete_action_def emit_def)

lemma delete_action_present:
  assumes "files ''archive.txt'' = Some content"
  shows "\<exists>rest. trace (snd (delete_action c g files v w)) =
           trace w @ [OpenFile ''archive.txt''] @ map ReadLine (text_lines content) @
             [CloseFile ''archive.txt''] @ rest \<and>
         (\<forall>e\<in>set rest. \<not> is_file_event e) \<and>
         prefix (requests rest) (map (DeleteArchive v) (scrape (text_lines content) []))"
proof -
  define w3 where "w3 = emit (CloseFile ''archive.txt'')
    ((emit (OpenFile ''archive.txt'') w)
       \<lparr>trace := trace (emit (OpenFile ''archive.txt'') w) @ map ReadLine (text_lines content)\<rparr>)"
  have t3: "trace w3 = trace w @ [OpenFile ''archive.txt''] @ map ReadLine (text_lines content) @
      [CloseFile ''archive.txt'']"
    by (simp add: w3_def emit_def)
  have run: "delete_action c g files v w = delete_each c g v (scrape (text_lines content) []) w3"
    using assms by (simp add: delete_action_def w3_def Let_def)
  obtain rest where "trace (snd (delete_each c g v (scrape (text_lines content) []) w3)) = trace w3 @ rest"
    and "\<forall>e\<in>set rest. \<not> is_file_event e"
    and "prefix (requests rest) (map (DeleteArchive v) (scrape (text_lines content) []))"
    using delete_each_trace [of c g v "scrape (text_lines content) []" w3] by blast
  then show ?thesis using run t3 by auto
qed

text \<open>
  C5. Whatever is given to \<open>-f/--filename\<close>, the run is the same, for every action; and
  the delete action opens one file, \<open>archive.txt\<close>.
\<close>

theorem filename_is_ignored:
  "main c g files (a\<lparr>filename := f1\<rparr>) w = main c g files (a\<lparr>filename := f2\<rparr>) w \<and>
   (action a = ''delete'' \<longrightarrow>
      (\<exists>out. main c g files (a\<lparr>filename := f1\<rparr>) w = Some out \<and>
             opened (trace (snd out)) = opened (trace w) @ [''archive.txt'']))"
proof -
  have same: "main c g files (a\<lparr>filename := f1\<rparr>) w = main c g files (a\<lparr>filename := f2\<rparr>) w"
    by (simp add: main_def Let_def)
  have op: "opened (trace (snd (delete_action c g files (vault a) w))) =
      opened (trace w) @ [''archive.txt'']"
  proof (cases "files ''archive.txt''")
    case None
    then show ?thesis
      using delete_action_missing [of files c g "vault a" w] by (simp add: opened_append)
  next
    case (Some content)
    then obtain rest where
      "trace (snd (delete_action c g files (vault a) w)) =
         trace w @ [OpenFile ''archive.txt''] @ map ReadLine (text_lines content) @
           [CloseFile ''archive.txt''] @ rest"
      and "\<forall>e\<in>set rest. \<not> is_file_event e"
      using delete_action_present [of files content c g "vault a" w] by blast
    then show ?thesis
      by (simp add: opened_append opened_ReadLine opened_no_file_event)
  qed
  have "action a = ''delete'' \<longrightarrow>
      (\<exists>out. main c g files (a\<lparr>filename := f1\<rparr>) w = Some out \<and>
             opened (trace (snd out)) = opened (trace w) @ [''archive.txt''])"
    using op by (simp add: main_def Let_def)
  with same show ?thesis by blast
qed

theorem filename_is_ignored_witness:
  "action \<lparr>action = ''delete'', vault = ''v'', debug = False, filename = None, job = None\<rparr> = ''delete'' \<and>
   main plain_console small_vault [''archive.txt'' \<mapsto> sample_log, ''other.txt'' \<mapsto> ''Archive ID: zzz'']
     \<lparr>action = ''delete'', vault = ''v'', debug = False, filename = Some ''other.txt'', job = None\<rparr>
     \<lparr>service = [''xyz-001''], trace = []\<rparr> =
   main plain_console small_vault [''archive.txt'' \<mapsto> sample_log, ''other.txt'' \<mapsto> ''Archive ID: zzz'']
     \<lparr>action = ''delete'', vault = ''v'', debug = False, filename = None, job = None\<rparr>
     \<lparr>service = [''xyz-001''], trace = []\<rparr>"
  using filename_is_ignored [where c = plain_console and g = small_vault
      and files = "[''archive.txt'' \<mapsto> sample_log, ''other.txt'' \<mapsto> ''Archive ID: zzz'']"
      and a = "\<lparr>action = ''delete'', vault = ''v'', debug = False, filename = None, job = None\<rparr>"
      and ?f1.0 = "Some ''other.txt''" and w = "\<lparr>service = [''xyz-001''], trace = []\<rparr>"
      and ?f2.0 = None]
  by simp

text \<open>
  C8. In every run of the delete action the file is opened first. When it is missing,
  \<open>FileNotFoundError\<close> escapes and no request is sent. When it is there, all its lines are
  read and it is closed, and only then do the deletion requests start: after the file
  is closed the run touches no file, and what it sends is deletion requests for the
  scraped IDs, in order.
\<close>

theorem delete_reads_then_deletes:
  "action a = ''delete'' \<longrightarrow>
     (files ''archive.txt'' = None \<longrightarrow>
        main c g files a w =
          Some (Inl (FileNotFoundError ''archive.txt''),
                w\<lparr>trace := trace w @ [OpenFile ''archive.txt'']\<rparr>)) \<and>
     (\<forall>content. files ''archive.txt'' = Some content \<longrightarrow>
        concat (text_lines content) = content \<and>
        (\<exists>out rest. main c g files a w = Some out \<and>
           trace (snd out) =
             trace w @ [OpenFile ''archive.txt''] @ map ReadLine (text_lines content) @
               [CloseFile ''archive.txt''] @ rest \<and>
           (\<forall>e\<in>set rest. \<not> is_file_event e) \<and>
           requests (trace (snd out)) = requests (trace w) @ requests rest \<and>
           prefix (requests rest) (map (DeleteArchive (vault a)) (scrape (text_lines content) []))))"
proof -
  have missing: "main c g files a w =
          Some (Inl (FileNotFoundError ''archive.txt''),
                w\<lparr>trace := trace w @ [OpenFile ''archive.txt'']\<rparr>)"
    if "action a = ''delete''" and "files ''archive.txt'' = None"
    using that delete_action_missing [of files c g "vault a" w] by (simp add: main_def Let_def)
  have present: "\<exists>out rest. main c g files a w = Some out \<and>
           trace (snd out) =
             trace w @ [OpenFile ''archive.txt''] @ map ReadLine (text_lines content) @
               [CloseFile ''archive.txt''] @ rest \<and>
           (\<forall>e\<in>set rest. \<not> is_file_event e) \<and>
           requests (trace (snd out)) = requests (trace w) @ requests rest \<and>
           prefix (requests rest) (map (DeleteArchive (vault a)) (scrape (text_lines content) []))"
    if act: "action a = ''delete''" and there: "files ''archive.txt'' = Some content" for content
  proof -
    obtain rest where t: "trace (snd (delete_action c g files (vault a) w)) =
           trace w @ [OpenFile ''archive.txt''] @ map ReadLine (text_lines content) @
             [CloseFile ''archive.txt''] @ rest"
      and nf: "\<forall>e\<in>set rest. \<not> is_file_event e"
      and pf: "prefix (requests rest) (map (DeleteArchive (vault a)) (scrape (text_lines content) []))"
      using there delete_action_present [of files content c g "vault a" w] by blast
    have m: "main c g files a w = Some (delete_action c g files (vault a) w)"
      using act by (simp add: main_def Let_def)
    have rq: "requests (trace (snd (delete_action c g files (vault a) w))) =
        requests (trace w) @ requests rest"
      using t by (simp add: requests_append requests_ReadLine)
    show ?thesis using m t nf pf rq by blast
  qed
  show ?thesis using missing present text_lines_concat by blast
qed

theorem delete_reads_then_deletes_witness:
  "action \<lparr>action = ''delete'', vault = ''v'', debug = False, filename = None, job = None\<rparr> = ''delete'' \<and>
   [''archive.txt'' \<mapsto> sample_log] ''archive.txt'' = Some sample_log \<and>
   main plain_console small_vault [''archive.txt'' \<mapsto> sample_log]
     \<lparr>action = ''delete'', vault = ''v'', debug = False, filename = None, job = None\<rparr>
     \<lparr>service = [''xyz-001''], trace = []\<rparr> =
   Some (Inr (), \<lparr>service = [], trace =
     [OpenFile ''archive.txt'',
      ReadLine ''Size:     10,  Archive ID: xyz-001\<newline>'',
      ReadLine ''(garbage line with no marker)\<newline>'',
      ReadLine ''Size:     20,  Archive ID: xyz-002\<newline>'',
      CloseFile ''archive.txt'',
      Remote (DeleteArchive ''v'' ''xyz-001''), Print ''Deleted archive xyz-001 from v'' None,
      Remote (DeleteArchive ''v'' ''xyz-002''),
      LogError (ClientError ''ResourceNotFoundException'')]\<rparr>) \<and>
   concat (text_lines sample_log) = sample_log"
proof -
  have r: "main plain_console small_vault [''archive.txt'' \<mapsto> sample_log]
     \<lparr>action = ''delete'', vault = ''v'', debug = False, filename = None, job = None\<rparr>
     \<lparr>service = [''xyz-001''], trace = []\<rparr> =
   Some (Inr (), \<lparr>service = [], trace =
     [OpenFile ''archive.txt'',
      ReadLine ''Size:     10,  Archive ID: xyz-001\<newline>'',
      ReadLine ''(garbage line with no marker)\<newline>'',
      ReadLine ''Size:     20,  Archive ID: xyz-002\<newline>'',
      CloseFile ''archive.txt'',
      Remote (DeleteArchive ''v'' ''xyz-001''), Print ''Deleted archive xyz-001 from v'' None,
      Remote (DeleteArchive ''v'' ''xyz-002''),
      LogError (ClientError ''ResourceNotFoundException'')]\<rparr>)"
    by (simp add: main_def delete_action_def delete_archive_def small_vault_def sample_log_def
        sent_def emit_def MARKER_def py_strip_def is_space_def Let_def and_then_def
        console_print_def no_bracket_accepted)
  have "concat (text_lines sample_log) = sample_log"
    using delete_reads_then_deletes [where
        a = "\<lparr>action = ''delete'', vault = ''v'', debug = False, filename = None, job = None\<rparr>"
        and files = "[''archive.txt'' \<mapsto> sample_log]" and g = small_vault and c = plain_console
        and w = "\<lparr>service = [''xyz-001''], trace = []\<rparr>"]
    by simp
  with r show ?thesis by simp
qed

section \<open>Wrong input on the command line\<close>

lemma error_message_accepted:
  assumes "CHR ''['' \<notin> set act"
  shows "\<not> markup_error c (''ERROR: Action [bold]'' @ act @ ''[/bold] is not recognized.'')"
proof -
  obtain m where m: "scan_tags 0 (act @ ''[/bold] is not recognized.'') =
      scan_tags m ''[/bold] is not recognized.''"
    using scan_tags_no_bracket [OF assms] by blast
  have tail: "scan_tags m ''[/bold] is not recognized.'' =
      (if even m then [(''/bold'', None)] else [])"
    by (simp add: tag_at_def is_tag_start_def in_tag_def make_tag_def)
  have "scan_tags 0 (''ERROR: Action [bold]'' @ act @ ''[/bold] is not recognized.'') =
      (''bold'', None) # (if even m then [(''/bold'', None)] else [])"
    using m tail by (simp add: tag_at_def is_tag_start_def in_tag_def make_tag_def)
  then show ?thesis
    by (simp add: markup_error_def py_strip_def is_space_def handler_error_def)
qed

lemma valid_actions_message:
  "''Valid actions are: [cyan]'' @ py_join '' '' VALID_ACTIONS @ ''[cyan]'' =
     ''Valid actions are: [cyan]list start_inventory get_inventory delete[cyan]''"
  by (simp add: VALID_ACTIONS_def)

lemma valid_actions_message_accepted:
  "\<not> markup_error c ''Valid actions are: [cyan]list start_inventory get_inventory delete[cyan]''"
  by (simp add: markup_error_def tag_at_def is_tag_start_def in_tag_def make_tag_def)

lemma closing_action_refused:
  "markup_error c ''ERROR: Action [bold][/][/bold] is not recognized.''"
  by (simp add: markup_error_def tag_at_def is_tag_start_def in_tag_def make_tag_def
      py_strip_def is_space_def handler_error_def)

text \<open>
  C6. The last branch of \<open>main\<close> puts the action inside the markup of its first message.
  For the action \<open>[/]\<close>, which is none of the four valid ones, the closing tag \<open>[/bold]\<close> of
  the message then closes nothing: \<open>MarkupError\<close> escapes \<open>main\<close> before anything is printed
  and the exit status is 1, whatever the console's style names. For an action outside
  the four valid ones that holds no opening bracket, \<open>main\<close> prints the error message
  and the message that lists the valid actions, sends no request, and returns, so that
  the exit status is 0.
\<close>

theorem unknown_action_markup_error:
  "(action a = ''[/]'' \<longrightarrow>
      action a \<notin> set VALID_ACTIONS \<and>
      main c g files a w = Some (Inl MarkupError, w) \<and>
      exit_status (Inl MarkupError, w) = 1) \<and>
   (action a \<notin> set VALID_ACTIONS \<and> CHR ''['' \<notin> set (action a) \<longrightarrow>
      main c g files a w =
        Some (Inr (), w\<lparr>trace := trace w @
          [Print (''ERROR: Action [bold]'' @ action a @ ''[/bold] is not recognized.'') (Some ''red''),
           Print ''Valid actions are: [cyan]list start_inventory get_inventory delete[cyan]'' None]\<rparr>) \<and>
      (\<forall>out. main c g files a w = Some out \<longrightarrow>
         exit_status out = 0 \<and> requests (trace (snd out)) = requests (trace w) \<and>
         service (snd out) = service w))"
proof -
  have bad: "action a \<notin> set VALID_ACTIONS \<and>
      main c g files a w = Some (Inl MarkupError, w) \<and>
      exit_status (Inl MarkupError, w) = 1" if "action a = ''[/]''"
    using that closing_action_refused [of c]
    by (simp add: main_def VALID_ACTIONS_def unknown_action_def and_then_def console_print_def
        exit_status_def Let_def)
  have good: "main c g files a w =
        Some (Inr (), w\<lparr>trace := trace w @
          [Print (''ERROR: Action [bold]'' @ action a @ ''[/bold] is not recognized.'') (Some ''red''),
           Print ''Valid actions are: [cyan]list start_inventory get_inventory delete[cyan]'' None]\<rparr>) \<and>
      (\<forall>out. main c g files a w = Some out \<longrightarrow>
         exit_status out = 0 \<and> requests (trace (snd out)) = requests (trace w) \<and>
         service (snd out) = service w)"
    if h: "action a \<notin> set VALID_ACTIONS \<and> CHR ''['' \<notin> set (action a)"
  proof -
    have m: "main c g files a w = Some (unknown_action c (action a) w)"
      using h by (simp add: main_def VALID_ACTIONS_def Let_def)
    have "unknown_action c (action a) w =
        (Inr (), w\<lparr>trace := trace w @
          [Print (''ERROR: Action [bold]'' @ action a @ ''[/bold] is not recognized.'') (Some ''red''),
           Print ''Valid actions are: [cyan]list start_inventory get_inventory delete[cyan]'' None]\<rparr>)"
      unfolding unknown_action_def valid_actions_message
      using h error_message_accepted [of "action a" c] valid_actions_message_accepted [of c]
      by (simp add: and_then_def console_print_def emit_def)
    then show ?thesis using m by (simp add: exit_status_def requests_append)
  qed
  from bad good show ?thesis by blast
qed

theorem unknown_action_markup_error_witness:
  "main plain_console rejecting Map.empty
     \<lparr>action = ''[/]'', vault = ''v'', debug = False, filename = None, job = None\<rparr>
     \<lparr>service = (), trace = []\<rparr> =
   Some (Inl MarkupError, \<lparr>service = (), trace = []\<rparr>) \<and>
   ''bogus'' \<notin> set VALID_ACTIONS \<and> CHR ''['' \<notin> set ''bogus'' \<and>
   main plain_console rejecting Map.empty
     \<lparr>action = ''bogus'', vault = ''v'', debug = False, filename = None, job = None\<rparr>
     \<lparr>service = (), trace = []\<rparr> =
   Some (Inr (), \<lparr>service = (), trace =
     [Print ''ERROR: Action [bold]bogus[/bold] is not recognized.'' (Some ''red''),
      Print ''Valid actions are: [cyan]list start_inventory get_inventory delete[cyan]'' None]\<rparr>)"
  using unknown_action_markup_error [where c = plain_console and
      a = "\<lparr>action = ''[/]'', vault = ''v'', debug = False, filename = None, job = None\<rparr>"
      and g = rejecting and files = Map.empty and w = "\<lparr>service = (), trace = []\<rparr>"]
    unknown_action_markup_error [where c = plain_console and
      a = "\<lparr>action = ''bogus'', vault = ''v'', debug = False, filename = None, job = None\<rparr>"
      and g = rejecting and files = Map.empty and w = "\<lparr>service = (), trace = []\<rparr>"]
  by (simp add: VALID_ACTIONS_def)

text \<open>
  C7. When the action is \<open>get_inventory\<close> and \<open>-j/--job\<close> is absent, \<open>main\<close> prints the
  message that a job ID is required, and nothing else happens: no request is sent.
\<close>

theorem get_inventory_needs_job:
  "action a = ''get_inventory'' \<and> job a = None \<longrightarrow>
     main c g files a w =
       Some (Inr (), w\<lparr>trace := trace w @
         [Print ''Job ID is required to get the inventory results'' (Some ''yellow'')]\<rparr>) \<and>
     (\<forall>out. main c g files a w = Some out \<longrightarrow>
        requests (trace (snd out)) = requests (trace w) \<and> service (snd out) = service w)"
  by (simp add: main_def get_inventory_action_def console_print_def no_bracket_accepted
      emit_def requests_append Let_def)

theorem get_inventory_needs_job_witness:
  "main plain_console small_vault Map.empty
     \<lparr>action = ''get_inventory'', vault = ''v'', debug = False, filename = None, job = None\<rparr>
     \<lparr>service = [], trace = []\<rparr> =
   Some (Inr (), \<lparr>service = [], trace =
     [Print ''Job ID is required to get the inventory results'' (Some ''yellow'')]\<rparr>)"
  using get_inventory_needs_job [where c = plain_console and
      a = "\<lparr>action = ''get_inventory'', vault = ''v'', debug = False, filename = None, job = None\<rparr>"
      and g = small_vault and files = Map.empty and w = "\<lparr>service = [], trace = []\<rparr>"]
  by simp

section \<open>Printing an inventory\<close>

lemma sample_inventory_decoded:
  "json_loads_bytes sample_inventory =
     Inr (PDict [(''VaultARN'', PStr ''arn:x''),
                 (''ArchiveList'', PList [PDict [(''Size'', PInt 5), (''ArchiveId'', PStr ''a1'')]])])"
  by code_simp

lemma sample_archive_line:
  "archive_line (PDict [(''Size'', PInt 5), (''ArchiveId'', PStr ''a1'')]) =
     Inr ''  Size:      5,  Archive ID: a1''"
  by code_simp

text \<open>
  C9. When the body of the job output is the JSON text of the sample, the get_inventory
  action decodes it to the dict with the vault ARN \<open>arn:x\<close> and the one archive of size 5
  and ID \<open>a1\<close>, and prints the ARN and one line for the archive that shows the size 5 and
  the ID \<open>a1\<close>.
\<close>

theorem inventory_round_trip:
  "action a = ''get_inventory'' \<and> job a = Some j \<and>
   api_get_job_output g (vault a) j (service w) = (Inr sample_inventory, s) \<longrightarrow>
     json_loads_bytes sample_inventory =
       Inr (PDict [(''VaultARN'', PStr ''arn:x''),
                   (''ArchiveList'', PList [PDict [(''Size'', PInt 5), (''ArchiveId'', PStr ''a1'')]])]) \<and>
     main c g files a w =
       Some (Inr (), \<lparr>service = s, trace = trace w @
         [Remote (GetJobOutput (vault a) j),
          Print ''Vault ARN: arn:x'' None,
          Print ''  Size:      5,  Archive ID: a1'' None]\<rparr>)"
  by (simp add: main_def get_inventory_action_def retrieve_inventory_results_def
      sample_inventory_decoded sample_archive_line sent_def emit_def bind_r_def dict_getitem_def
      Let_def and_then_def console_print_def no_bracket_accepted)

theorem inventory_round_trip_witness:
  "main plain_console small_vault Map.empty
     \<lparr>action = ''get_inventory'', vault = ''v'', debug = False, filename = None, job = Some ''j1''\<rparr>
     \<lparr>service = [], trace = []\<rparr> =
   Some (Inr (), \<lparr>service = [], trace =
     [Remote (GetJobOutput ''v'' ''j1''),
      Print ''Vault ARN: arn:x'' None,
      Print ''  Size:      5,  Archive ID: a1'' None]\<rparr>)"
  using inventory_round_trip [where
      a = "\<lparr>action = ''get_inventory'', vault = ''v'', debug = False, filename = None, job = Some ''j1''\<rparr>"
      and j = "''j1''" and g = small_vault and c = plain_console and w = "\<lparr>service = [], trace = []\<rparr>" and s = "[]"
      and files = Map.empty]
  by (simp add: small_vault_def)

section \<open>Listing the vaults\<close>






















end
